theory Spec2Isabelle
  imports Main
begin

section \<open>Data model\<close>

text \<open>
  The interfaces of \<^verbatim>\<open>src/lib/types/rateLimit.ts\<close>. A JavaScript \<^verbatim>\<open>Date\<close> is its
  number of milliseconds since the epoch; counters are integers. A stored timestamp is a
  valid date.
\<close>

record RateLimitConfig =
  maxAttempts :: int
  windowMinutes :: int

record RateLimitKey =
  ip :: string
  identifier' :: string

record RateLimitAttempt =
  attemptCount :: int
  lastReset :: int
  lastAttempt :: int

text \<open>The private constants of \<^verbatim>\<open>RateLimitService\<close>.\<close>

definition MAX_ATTEMPTS :: int where
  "MAX_ATTEMPTS = 5"

definition WINDOW_MINUTES :: int where
  "WINDOW_MINUTES = 15"

subsection \<open>Errors\<close>

text \<open>
  \<^verbatim>\<open>AuthError(message, code, details)\<close>. The two codes the rate limiter writes as string
  literals are kept as strings; \<^verbatim>\<open>AUTH_ERROR_CODES.INVALID_CREDENTIALS\<close> and
  \<^verbatim>\<open>AUTH_ERROR_CODES.SERVER_ERROR\<close> are constants declared elsewhere and stay symbolic.
  Any exception that is not an \<^verbatim>\<open>AuthError\<close> is an \<open>OtherError\<close>.
\<close>

datatype error_code = Code string | INVALID_CREDENTIALS | SERVER_ERROR

datatype exn = AuthError string error_code "exn option" | OtherError string

fun isAuthError :: "exn \<Rightarrow> bool" where
  "isAuthError (AuthError m c d) = True"
| "isAuthError (OtherError m) = False"

subsection \<open>The storage client\<close>

text \<open>
  A call of the storage client either throws or resolves to an object
  \<^verbatim>\<open>{ data, error }\<close>, each of which may be null.
\<close>

datatype 'a reply = Threw exn | Reply "'a option" "string option"

type_synonym attempt_store = "RateLimitKey \<Rightarrow> RateLimitAttempt option"

subsection \<open>Rendering a number in a template string\<close>

definition digit :: "nat \<Rightarrow> char" where
  "digit d = char_of (48 + d)"

function show_nat :: "nat \<Rightarrow> string" where
  "show_nat n = (if n < 10 then [digit n] else show_nat (n div 10) @ [digit (n mod 10)])"
  by pat_completeness auto
termination
  by (relation "measure id") auto

declare show_nat.simps [simp del]

definition show_int :: "int \<Rightarrow> string" where
  "show_int i = (if i < 0 then CHR ''-'' # show_nat (nat (- i)) else show_nat (nat i))"

subsection \<open>The world outside the process\<close>

text \<open>
  Everything mutable lives outside the process: the table \<^verbatim>\<open>failed_attempts\<close> (one row
  per key) and the effects the code has on its surroundings, in the order they happen.
  A \<^verbatim>\<open>console.error\<close> call is recorded by its label.
\<close>

datatype audit_event =
    LOGIN_FAILED string string string int
  | LOGIN_SUCCESS string string string

datatype effect =
    ConsoleError string
  | LogAuthEvent audit_event
  | SetAuthTokens string string int
  | UpdateLastLogin string int

record world =
  failed_attempts :: attempt_store
  effects :: "effect list"

definition console_error :: "string \<Rightarrow> world \<Rightarrow> world" where
  "console_error label w = w\<lparr>effects := effects w @ [ConsoleError label]\<rparr>"

definition add_effect :: "effect \<Rightarrow> world \<Rightarrow> world" where
  "add_effect e w = w\<lparr>effects := effects w @ [e]\<rparr>"

subsection \<open>Collaborators\<close>

text \<open>
  The rows of the table \<^verbatim>\<open>users\<close> that \<^verbatim>\<open>login\<close> selects, the token pair of
  \<^verbatim>\<open>TokenService\<close>, and the input and the response of \<^verbatim>\<open>login\<close>.
\<close>

record user_row =
  u_id :: string
  u_email :: string
  u_firstname :: string
  u_lastname :: string
  u_password_hash :: string
  u_role :: "string option"
  u_is_verified :: bool
  u_plan_id :: "string option"

record token_payload =
  p_userId :: string
  p_email :: string
  p_role :: string
  p_planId :: "string option"

record tokens =
  accessToken :: string
  refreshToken :: string
  expiresIn :: int

record UserSession =
  s_id :: string
  s_email :: string
  s_firstName :: string
  s_lastName :: string
  s_role :: string
  s_isVerified :: bool
  s_planId :: "string option"

record AuthResponse =
  r_user :: UserSession
  r_tokens :: tokens

record LoginInput =
  email :: string
  password :: string
  deviceInfo :: string

text \<open>
  What the code cannot decide is a parameter: what the storage client answers to the
  select on \<^verbatim>\<open>failed_attempts\<close> (given the table), what the stored procedure
  \<^verbatim>\<open>increment_failed_attempts\<close> answers and does to the table, what the select on
  \<^verbatim>\<open>users\<close> answers, whether the audit service or the update of \<^verbatim>\<open>last_login\<close>
  throws, the password hash, the client address, the tokens, and the value of each
  \<^verbatim>\<open>new Date()\<close>. The select on \<^verbatim>\<open>failed_attempts\<close> asks for the columns
  \<^verbatim>\<open>attempt_count\<close> and \<^verbatim>\<open>last_reset\<close>; the answer carries the stored row, of which
  the code reads these two. A select is a read: its answer may depend on the table, and
  it leaves the table as it is. The stored procedure may change the table in any way.
\<close>

record env =
  select_attempts :: "string \<Rightarrow> string \<Rightarrow> attempt_store \<Rightarrow> RateLimitAttempt reply"
  rpc_increment :: "string \<Rightarrow> string \<Rightarrow> int \<Rightarrow> attempt_store \<Rightarrow> int reply \<times> attempt_store"
  select_user :: "string \<Rightarrow> user_row reply"
  audit_failure :: "audit_event \<Rightarrow> exn option"
  update_failure :: "exn option"
  hashPassword :: "string \<Rightarrow> string"
  getClientIp :: string
  generateTokens :: "token_payload \<Rightarrow> string \<Rightarrow> tokens"
  date_precheck :: int
  date_failure :: int
  date_success :: int

text \<open>\<^verbatim>\<open>String.prototype.toLowerCase\<close> on the ASCII letters; other characters stay.\<close>

definition lower_char :: "char \<Rightarrow> char" where
  "lower_char c =
     (let n = (of_char c :: nat) in if 65 \<le> n \<and> n \<le> 90 then char_of (n + 32) else c)"

definition toLowerCase :: "string \<Rightarrow> string" where
  "toLowerCase s = map lower_char s"

section \<open>RateLimitService\<close>

text \<open>
  \<^verbatim>\<open>incrementAttempt\<close>: one call of the stored procedure with the current time. An error
  in the answer and a thrown exception are both logged and give 0; otherwise the result
  is \<^verbatim>\<open>data || 0\<close>.
\<close>

definition incrementAttempt :: "env \<Rightarrow> int \<Rightarrow> string \<Rightarrow> string \<Rightarrow> world \<Rightarrow> int \<times> world" where
  "incrementAttempt e now ipAddress identifier w =
     (case rpc_increment e ipAddress identifier now (failed_attempts w) of
        (Threw ex, st) \<Rightarrow>
          (0, console_error ''Error in incrementAttempt:'' (w\<lparr>failed_attempts := st\<rparr>))
      | (Reply data error, st) \<Rightarrow>
          (if error \<noteq> None
           then (0, console_error ''Failed to increment attempts:'' (w\<lparr>failed_attempts := st\<rparr>))
           else (case data of
                   None \<Rightarrow> (0, w\<lparr>failed_attempts := st\<rparr>)
                 | Some n \<Rightarrow> (n, w\<lparr>failed_attempts := st\<rparr>))))"

text \<open>
  \<^verbatim>\<open>getCurrentAttempts\<close>: the select, then the window test on \<^verbatim>\<open>last_reset\<close>. It writes
  nothing to the table.
\<close>

definition getCurrentAttempts :: "env \<Rightarrow> int \<Rightarrow> string \<Rightarrow> string \<Rightarrow> world \<Rightarrow> int \<times> world" where
  "getCurrentAttempts e now ipAddress identifier w =
     (case select_attempts e ipAddress identifier (failed_attempts w) of
        Threw ex \<Rightarrow> (0, console_error ''Error in getCurrentAttempts:'' w)
      | Reply data error \<Rightarrow>
          (if error \<noteq> None then (0, console_error ''Error fetching attempts:'' w)
           else (case data of
                   None \<Rightarrow> (0, w)
                 | Some row \<Rightarrow>
                     (let windowExpiry = lastReset row + WINDOW_MINUTES * 60 * 1000
                      in if now > windowExpiry then (0, w) else (attemptCount row, w)))))"

text \<open>The two errors \<^verbatim>\<open>checkRateLimit\<close> throws: the hard block and the warning.\<close>

definition tooManyRequests :: exn where
  "tooManyRequests =
     AuthError ''Too many failed attempts. Please try again later.''
       (Code ''auth/too-many-requests'') None"

definition attemptsRemaining :: "int \<Rightarrow> exn" where
  "attemptsRemaining remainingAttempts =
     AuthError (show_int remainingAttempts @ '' login attempts remaining before temporary lockout.'')
       (Code ''auth/attempts-remaining'') None"

definition checkRateLimit :: "env \<Rightarrow> int \<Rightarrow> string \<Rightarrow> string \<Rightarrow> world \<Rightarrow> (exn + unit) \<times> world" where
  "checkRateLimit e now ipAddress identifier w =
     (case getCurrentAttempts e now ipAddress identifier w of
        (attempts, w') \<Rightarrow>
          (if attempts \<ge> MAX_ATTEMPTS then (Inl tooManyRequests, w')
           else (let remainingAttempts = MAX_ATTEMPTS - attempts
                 in if remainingAttempts \<le> 2 then (Inl (attemptsRemaining remainingAttempts), w')
                    else (Inr (), w'))))"

section \<open>AuthService\<close>

text \<open>
  \<^verbatim>\<open>AuditService.logAuthEvent\<close> records the event, unless it throws.
\<close>

definition logAuthEvent :: "env \<Rightarrow> audit_event \<Rightarrow> world \<Rightarrow> (exn + unit) \<times> world" where
  "logAuthEvent e ev w =
     (case audit_failure e ev of
        Some ex \<Rightarrow> (Inl ex, w)
      | None \<Rightarrow> (Inr (), add_effect (LogAuthEvent ev) w))"

text \<open>The two errors \<^verbatim>\<open>handleFailedLogin\<close> throws after a failed credential check.\<close>

definition lockoutError :: exn where
  "lockoutError =
     AuthError ''Too many failed login attempts. Please try again after 15 minutes.''
       INVALID_CREDENTIALS None"

definition remainingWarning :: "int \<Rightarrow> exn" where
  "remainingWarning remainingAttempts =
     AuthError (''Invalid credentials. '' @ show_int remainingAttempts
                  @ '' attempts remaining before temporary lockout.'')
       INVALID_CREDENTIALS None"

text \<open>
  The \<^verbatim>\<open>catch\<close> of \<^verbatim>\<open>handleFailedLogin\<close>: an \<^verbatim>\<open>AuthError\<close> is thrown again, anything
  else is logged and swallowed.
\<close>

definition catchFailedLogin :: "exn \<Rightarrow> world \<Rightarrow> (exn + unit) \<times> world" where
  "catchFailedLogin ex w =
     (if isAuthError ex then (Inl ex, w)
      else (Inr (), console_error ''Error handling failed login:'' w))"

definition handleFailedLogin ::
  "env \<Rightarrow> int \<Rightarrow> string \<Rightarrow> string \<Rightarrow> string \<Rightarrow> world \<Rightarrow> (exn + unit) \<times> world" where
  "handleFailedLogin e now ipAddress email' reason w =
     (case incrementAttempt e now ipAddress (toLowerCase email') w of
        (attempts, w1) \<Rightarrow>
          (case logAuthEvent e (LOGIN_FAILED email' reason ipAddress attempts) w1 of
             (Inl ex, w2) \<Rightarrow> catchFailedLogin ex w2
           | (Inr u, w2) \<Rightarrow>
               (let remainingAttempts = 5 - attempts
                in if remainingAttempts \<le> 0 then catchFailedLogin lockoutError w2
                   else if remainingAttempts \<le> 2
                        then catchFailedLogin (remainingWarning remainingAttempts) w2
                        else (Inr (), w2))))"

text \<open>\<^verbatim>\<open>user.role || 'user'\<close>: null and the empty string give the default.\<close>

definition role_or_user :: "string option \<Rightarrow> string" where
  "role_or_user r = (case r of None \<Rightarrow> ''user'' | Some s \<Rightarrow> if s = [] then ''user'' else s)"

definition invalidCredentials :: exn where
  "invalidCredentials = AuthError ''Invalid email or password'' INVALID_CREDENTIALS None"

text \<open>
  The path of \<^verbatim>\<open>login\<close> after the password matched: tokens, cookies, audit event,
  update of \<^verbatim>\<open>last_login\<close>, response.
\<close>

definition loginVerified :: "env \<Rightarrow> string \<Rightarrow> string \<Rightarrow> user_row \<Rightarrow> world \<Rightarrow> (exn + AuthResponse) \<times> world" where
  "loginVerified e ipAddress device u w =
     (let tk = generateTokens e
                 \<lparr>p_userId = u_id u, p_email = u_email u, p_role = role_or_user (u_role u),
                  p_planId = u_plan_id u\<rparr> device;
          w1 = add_effect (SetAuthTokens (accessToken tk) (refreshToken tk) (expiresIn tk)) w
      in case logAuthEvent e (LOGIN_SUCCESS (u_id u) (u_email u) ipAddress) w1 of
           (Inl ex, w2) \<Rightarrow> (Inl ex, w2)
         | (Inr un, w2) \<Rightarrow>
             (case update_failure e of
                Some ex \<Rightarrow> (Inl ex, w2)
              | None \<Rightarrow>
                  (Inr \<lparr>r_user = \<lparr>s_id = u_id u, s_email = u_email u, s_firstName = u_firstname u,
                                  s_lastName = u_lastname u, s_role = role_or_user (u_role u),
                                  s_isVerified = u_is_verified u, s_planId = u_plan_id u\<rparr>,
                        r_tokens = tk\<rparr>,
                   add_effect (UpdateLastLogin (u_id u) (date_success e)) w2)))"

text \<open>
  A failed credential check: \<^verbatim>\<open>handleFailedLogin\<close>, then the generic error unless the
  handler threw.
\<close>

definition loginFailed :: "env \<Rightarrow> string \<Rightarrow> string \<Rightarrow> string \<Rightarrow> world \<Rightarrow> (exn + AuthResponse) \<times> world" where
  "loginFailed e ipAddress email' reason w =
     (case handleFailedLogin e (date_failure e) ipAddress email' reason w of
        (Inl ex, w') \<Rightarrow> (Inl ex, w')
      | (Inr u, w') \<Rightarrow> (Inl invalidCredentials, w'))"

text \<open>The body of the \<^verbatim>\<open>try\<close> of \<^verbatim>\<open>login\<close>.\<close>

definition loginBody :: "env \<Rightarrow> LoginInput \<Rightarrow> world \<Rightarrow> (exn + AuthResponse) \<times> world" where
  "loginBody e inp w =
     (let ipAddress = getClientIp e
      in case checkRateLimit e (date_precheck e) ipAddress (toLowerCase (email inp)) w of
           (Inl ex, w1) \<Rightarrow> (Inl ex, w1)
         | (Inr un, w1) \<Rightarrow>
             (let passwordHash = hashPassword e (password inp)
              in case select_user e (toLowerCase (email inp)) of
                   Threw ex \<Rightarrow> (Inl ex, w1)
                 | Reply user userError \<Rightarrow>
                     (case user of
                        None \<Rightarrow> loginFailed e ipAddress (email inp) ''User not found'' w1
                      | Some u \<Rightarrow>
                          if userError \<noteq> None
                          then loginFailed e ipAddress (email inp) ''User not found'' w1
                          else if u_password_hash u \<noteq> passwordHash
                          then loginFailed e ipAddress (email inp) ''Invalid password'' w1
                          else loginVerified e ipAddress (deviceInfo inp) u w1)))"

text \<open>
  \<^verbatim>\<open>login\<close>: the \<^verbatim>\<open>catch\<close> logs every exception, throws an \<^verbatim>\<open>AuthError\<close> again and
  wraps anything else in a server error.
\<close>

definition login :: "env \<Rightarrow> LoginInput \<Rightarrow> world \<Rightarrow> (exn + AuthResponse) \<times> world" where
  "login e inp w =
     (case loginBody e inp w of
        (Inl ex, w') \<Rightarrow>
          (if isAuthError ex then (Inl ex, console_error ''Login error:'' w')
           else (Inl (AuthError ''Failed to log in'' SERVER_ERROR (Some ex)),
                 console_error ''Login error:'' w'))
      | (Inr res, w') \<Rightarrow> (Inr res, w'))"

section \<open>Sequences of calls, failed answers, and a scenario\<close>

text \<open>
  Any number of calls of \<^verbatim>\<open>checkRateLimit\<close>, one after the other, each with its own
  key, its own time and its own behaviour of the storage client.
\<close>

fun checkRateLimit_calls :: "(env \<times> int \<times> string \<times> string) list \<Rightarrow> world \<Rightarrow> world" where
  "checkRateLimit_calls [] w = w"
| "checkRateLimit_calls ((e, now, ipAddress, identifier) # calls) w =
     checkRateLimit_calls calls (snd (checkRateLimit e now ipAddress identifier w))"

text \<open>
  The credential check of \<^verbatim>\<open>login\<close> fails when the select on \<^verbatim>\<open>users\<close> answers with an
  error or without a row (\<^verbatim>\<open>userError || !user\<close>), or when the stored hash differs from
  the hash of the password (\<^verbatim>\<open>user.password_hash !== passwordHash\<close>).
\<close>

definition credentials_rejected :: "env \<Rightarrow> LoginInput \<Rightarrow> bool" where
  "credentials_rejected e inp =
     (case select_user e (toLowerCase (email inp)) of
        Threw ex \<Rightarrow> False
      | Reply user userError \<Rightarrow>
          userError \<noteq> None \<or>
          (case user of
             None \<Rightarrow> True
           | Some u \<Rightarrow> u_password_hash u \<noteq> hashPassword e (password inp)))"

text \<open>A storage operation fails when the client throws or answers with an error.\<close>

fun reply_failed :: "'a reply \<Rightarrow> bool" where
  "reply_failed (Threw ex) = True"
| "reply_failed (Reply data error) = (error \<noteq> None)"

text \<open>
  A concrete setting: a storage client that answers the select with the stored row (and
  with an error when there is none, as \<^verbatim>\<open>.single()\<close> does), a stored procedure with a
  fixed answer, one user, an audit service that never throws, and one clock value.
\<close>

definition select_stored :: "string \<Rightarrow> string \<Rightarrow> attempt_store \<Rightarrow> RateLimitAttempt reply" where
  "select_stored ipAddress identifier st =
     (case st \<lparr>ip = ipAddress, identifier' = identifier\<rparr> of
        None \<Rightarrow> Reply None (Some ''PGRST116'')
      | Some row \<Rightarrow> Reply (Some row) None)"

definition alice :: user_row where
  "alice = \<lparr>u_id = ''u1'', u_email = ''a@b.com'', u_firstname = ''A'', u_lastname = ''B'',
            u_password_hash = ''hash:secret'', u_role = None, u_is_verified = True,
            u_plan_id = None\<rparr>"

definition scenario :: "int reply \<Rightarrow> int \<Rightarrow> env" where
  "scenario rpc now =
     \<lparr>select_attempts = select_stored,
      rpc_increment = (\<lambda>ipAddress identifier t st. (rpc, st)),
      select_user = (\<lambda>em. if em = ''a@b.com'' then Reply (Some alice) None
                           else Reply None (Some ''PGRST116'')),
      audit_failure = (\<lambda>ev. None),
      update_failure = None,
      hashPassword = (\<lambda>p. ''hash:'' @ p),
      getClientIp = ''1.2.3.4'',
      generateTokens =
        (\<lambda>p d. \<lparr>accessToken = ''access'', refreshToken = ''refresh'', expiresIn = 3600\<rparr>),
      date_precheck = now, date_failure = now, date_success = now\<rparr>"

text \<open>The same setting with the storage client down: every select throws.\<close>

definition outage :: "int reply \<Rightarrow> int \<Rightarrow> env" where
  "outage rpc now =
     (scenario rpc now)\<lparr>select_attempts := (\<lambda>ipAddress identifier st. Threw (OtherError ''fetch failed''))\<rparr>"

text \<open>A world whose table holds one row, for the key \<^verbatim>\<open>("1.2.3.4", "a@b.com")\<close>.\<close>

definition one_row :: "int \<Rightarrow> int \<Rightarrow> int \<Rightarrow> world" where
  "one_row n reset attempt =
     \<lparr>failed_attempts =
        (\<lambda>k. if k = \<lparr>ip = ''1.2.3.4'', identifier' = ''a@b.com''\<rparr>
             then Some \<lparr>attemptCount = n, lastReset = reset, lastAttempt = attempt\<rparr> else None),
      effects = []\<rparr>"

section \<open>Basic facts\<close>

lemma show_int_1: "show_int 1 = ''1''"
  by code_simp

lemma show_int_2: "show_int 2 = ''2''"
  by code_simp

lemma lower_email: "toLowerCase ''A@b.com'' = ''a@b.com''"
  by code_simp

lemma scenario_select:
  "select_attempts (scenario rpc t) ''1.2.3.4'' ''a@b.com'' (failed_attempts (one_row n reset attempt))
     = Reply (Some \<lparr>attemptCount = n, lastReset = reset, lastAttempt = attempt\<rparr>) None"
  by (simp add: scenario_def select_stored_def one_row_def)

lemma scenario_count:
  "fst (getCurrentAttempts (scenario rpc t) 1000 ''1.2.3.4'' ''a@b.com'' (one_row n 0 0)) = n"
  by (simp add: getCurrentAttempts_def scenario_select WINDOW_MINUTES_def)

text \<open>\<^verbatim>\<open>getCurrentAttempts\<close> leaves the table as it is; it can only add a console line.\<close>

lemma getCurrentAttempts_store:
  "failed_attempts (snd (getCurrentAttempts e now ipAddress identifier w)) = failed_attempts w"
  by (simp add: getCurrentAttempts_def console_error_def Let_def split: reply.splits option.splits)

lemma getCurrentAttempts_failed:
  assumes "reply_failed (select_attempts e ipAddress identifier (failed_attempts w))"
  shows "fst (getCurrentAttempts e now ipAddress identifier w) = 0"
  using assms
  by (cases "select_attempts e ipAddress identifier (failed_attempts w)")
     (simp_all add: getCurrentAttempts_def)

text \<open>\<^verbatim>\<open>checkRateLimit\<close> is a function of the count \<^verbatim>\<open>getCurrentAttempts\<close> returns.\<close>

lemma checkRateLimit_world:
  "snd (checkRateLimit e now ipAddress identifier w)
     = snd (getCurrentAttempts e now ipAddress identifier w)"
  by (simp add: checkRateLimit_def Let_def split: prod.splits)

lemma checkRateLimit_result:
  "fst (checkRateLimit e now ipAddress identifier w) =
     (if fst (getCurrentAttempts e now ipAddress identifier w) \<ge> MAX_ATTEMPTS
      then Inl tooManyRequests
      else if MAX_ATTEMPTS - fst (getCurrentAttempts e now ipAddress identifier w) \<le> 2
      then Inl (attemptsRemaining
                  (MAX_ATTEMPTS - fst (getCurrentAttempts e now ipAddress identifier w)))
      else Inr ())"
  by (simp add: checkRateLimit_def Let_def split: prod.splits)

lemma warning_not_block: "attemptsRemaining n \<noteq> tooManyRequests"
  by (simp add: attemptsRemaining_def tooManyRequests_def)

lemma checkRateLimit_throws_AuthError:
  "fst (checkRateLimit e now ipAddress identifier w) = Inl ex \<Longrightarrow> isAuthError ex"
  by (auto simp add: checkRateLimit_result tooManyRequests_def attemptsRemaining_def
           split: if_splits)

lemma incrementAttempt_failed:
  assumes "reply_failed (fst (rpc_increment e ipAddress identifier now (failed_attempts w)))"
  shows "fst (incrementAttempt e now ipAddress identifier w) = 0"
  using assms
  by (cases "rpc_increment e ipAddress identifier now (failed_attempts w)";
      cases "fst (rpc_increment e ipAddress identifier now (failed_attempts w))")
     (auto simp add: incrementAttempt_def)

section \<open>The pre-check\<close>

text \<open>
  The warning band of \<^verbatim>\<open>checkRateLimit\<close>: with an effective count \<open>c\<close> below the maximum
  and at most two attempts left, it throws the warning, whose message starts with the
  number \<open>MAX_ATTEMPTS - c\<close>.
\<close>

lemma checkRateLimit_warning:
  assumes "fst (getCurrentAttempts e now ipAddress identifier w) = c"
    and "c < MAX_ATTEMPTS" and "MAX_ATTEMPTS - c \<le> 2"
  shows "fst (checkRateLimit e now ipAddress identifier w)
           = Inl (AuthError (show_int (MAX_ATTEMPTS - c)
                               @ '' login attempts remaining before temporary lockout.'')
                    (Code ''auth/attempts-remaining'') None)"
  using assms by (simp add: checkRateLimit_result attemptsRemaining_def)

text \<open>
  Whatever \<^verbatim>\<open>checkRateLimit\<close> throws leaves \<^verbatim>\<open>login\<close> through its \<^verbatim>\<open>catch\<close>, which throws
  an \<^verbatim>\<open>AuthError\<close> again: the select on \<^verbatim>\<open>users\<close> is never reached.
\<close>

lemma login_precheck_throws:
  assumes "fst (checkRateLimit e (date_precheck e) (getClientIp e) (toLowerCase (email inp)) w)
             = Inl ex"
  shows "fst (login e inp w) = Inl ex"
  using assms checkRateLimit_throws_AuthError [OF assms]
  by (cases "checkRateLimit e (date_precheck e) (getClientIp e) (toLowerCase (email inp)) w")
     (simp add: login_def loginBody_def Let_def)

text \<open>
  Claim C1. With an effective count \<open>c\<close> below the maximum and at most two attempts left,
  \<^verbatim>\<open>checkRateLimit\<close> fails with the warning carrying \<open>MAX_ATTEMPTS - c\<close>, and the failure is
  soft: \<^verbatim>\<open>login\<close> goes on to verify the credentials. The first half holds
  (\<open>checkRateLimit_warning\<close>); the second does not. With three failures stored inside the
  window, the pre-check throws the warning for two remaining attempts, and a login with
  the right password ends with that error and one console line: no tokens, no audit
  event. With two failures stored, the same login succeeds.
\<close>

theorem login_warning_blocks_right_password:
  "fst (checkRateLimit (scenario (Reply (Some 4) None) 1000) 1000 ''1.2.3.4'' ''a@b.com''
          (one_row 3 0 0))
     = Inl (attemptsRemaining 2)
   \<and> u_password_hash alice = hashPassword (scenario (Reply (Some 4) None) 1000) ''secret''
   \<and> fst (login (scenario (Reply (Some 4) None) 1000)
             \<lparr>email = ''A@b.com'', password = ''secret'', deviceInfo = ''web''\<rparr> (one_row 3 0 0))
     = Inl (AuthError ''2 login attempts remaining before temporary lockout.''
              (Code ''auth/attempts-remaining'') None)
   \<and> effects (snd (login (scenario (Reply (Some 4) None) 1000)
             \<lparr>email = ''A@b.com'', password = ''secret'', deviceInfo = ''web''\<rparr> (one_row 3 0 0)))
     = [ConsoleError ''Login error:'']
   \<and> \<not> isl (fst (login (scenario (Reply (Some 4) None) 1000)
             \<lparr>email = ''A@b.com'', password = ''secret'', deviceInfo = ''web''\<rparr> (one_row 2 0 0)))"
  by code_simp

text \<open>
  Claim C2. When the effective attempt count is at least \<open>MAX_ATTEMPTS\<close> (5),
  \<^verbatim>\<open>checkRateLimit\<close> fails with the too-many-attempts error; when the count is below
  \<open>MAX_ATTEMPTS\<close>, it does not produce that error.
\<close>

theorem checkRateLimit_hard_block:
  "(MAX_ATTEMPTS \<le> fst (getCurrentAttempts e now ipAddress identifier w)
      \<longrightarrow> fst (checkRateLimit e now ipAddress identifier w) = Inl tooManyRequests)
   \<and> (fst (getCurrentAttempts e now ipAddress identifier w) < MAX_ATTEMPTS
      \<longrightarrow> fst (checkRateLimit e now ipAddress identifier w) \<noteq> Inl tooManyRequests)"
  by (simp add: checkRateLimit_result warning_not_block)

theorem checkRateLimit_hard_block_witness:
  "fst (checkRateLimit (scenario (Reply None None) 0) 1000 ''1.2.3.4'' ''a@b.com'' (one_row 5 0 0))
     = Inl tooManyRequests
   \<and> fst (checkRateLimit (scenario (Reply None None) 0) 1000 ''1.2.3.4'' ''a@b.com'' (one_row 4 0 0))
     \<noteq> Inl tooManyRequests"
  using checkRateLimit_hard_block
          [of "scenario (Reply None None) 0" 1000 "''1.2.3.4''" "''a@b.com''" "one_row 5 0 0"]
        checkRateLimit_hard_block
          [of "scenario (Reply None None) 0" 1000 "''1.2.3.4''" "''a@b.com''" "one_row 4 0 0"]
  by (simp add: scenario_count MAX_ATTEMPTS_def)

text \<open>
  Claim C3. When the read returns the stored record \<open>r\<close>, the effective attempt count at
  time \<open>now\<close> is 0 if \<open>now\<close> is strictly greater than \<open>lastReset r\<close> plus the window
  (\<open>WINDOW_MINUTES\<close> minutes, in milliseconds), and the stored \<open>attemptCount r\<close> otherwise.
\<close>

theorem effective_count_window:
  assumes "select_attempts e ipAddress identifier (failed_attempts w) = Reply (Some r) None"
  shows "fst (getCurrentAttempts e now ipAddress identifier w) =
           (if now > lastReset r + WINDOW_MINUTES * 60 * 1000 then 0 else attemptCount r)"
  using assms by (simp add: getCurrentAttempts_def Let_def)

theorem effective_count_window_witness:
  "fst (getCurrentAttempts (scenario (Reply None None) 0) 901001 ''1.2.3.4'' ''a@b.com''
          (one_row 5 1000 1000)) = 0
   \<and> fst (getCurrentAttempts (scenario (Reply None None) 0) 901000 ''1.2.3.4'' ''a@b.com''
          (one_row 5 1000 1000)) = 5"
  using effective_count_window [OF scenario_select, where now = 901001]
        effective_count_window [OF scenario_select, where now = 901000]
  by (simp add: WINDOW_MINUTES_def)

text \<open>
  Claim C4, as stated: if the record's \<open>lastAttempt\<close> is older than the window relative to
  the current time, the effective count is 0 whatever the stored count. The code never
  reads \<open>lastAttempt\<close>; the window starts at \<open>lastReset\<close>. For the stored record with count
  5, \<open>lastReset = 1000\<close> and \<open>lastAttempt = 999\<close>, at time 901000 the last attempt is older
  than the window and the effective count is 5.
\<close>

theorem lastAttempt_expiry_counterexample:
  "lastAttempt \<lparr>attemptCount = 5, lastReset = 1000, lastAttempt = 999\<rparr>
       + WINDOW_MINUTES * 60 * 1000 < 901000
   \<and> select_attempts (scenario (Reply None None) 0) ''1.2.3.4'' ''a@b.com''
         (failed_attempts (one_row 5 1000 999))
       = Reply (Some \<lparr>attemptCount = 5, lastReset = 1000, lastAttempt = 999\<rparr>) None
   \<and> fst (getCurrentAttempts (scenario (Reply None None) 0) 901000 ''1.2.3.4'' ''a@b.com''
            (one_row 5 1000 999)) = 5"
  by (simp add: getCurrentAttempts_def scenario_select WINDOW_MINUTES_def)

text \<open>
  Claim C4, amended: for a stored record whose \<open>lastReset\<close> is not later than its
  \<open>lastAttempt\<close>, if \<open>lastAttempt\<close> is older than the window relative to the current time,
  the effective count is 0 whatever the stored count.
\<close>

theorem lastAttempt_expiry_amended:
  assumes "select_attempts e ipAddress identifier (failed_attempts w) = Reply (Some r) None"
    and "lastReset r \<le> lastAttempt r"
    and "now > lastAttempt r + WINDOW_MINUTES * 60 * 1000"
  shows "fst (getCurrentAttempts e now ipAddress identifier w) = 0"
  using assms by (simp add: getCurrentAttempts_def Let_def)

theorem lastAttempt_expiry_amended_witness:
  "fst (getCurrentAttempts (scenario (Reply None None) 0) 902000 ''1.2.3.4'' ''a@b.com''
          (one_row 5 1000 1500)) = 0"
  using lastAttempt_expiry_amended
          [OF scenario_select [of "Reply None None" 0 5 1000 1500], where now = 902000]
  by (simp add: WINDOW_MINUTES_def)

text \<open>
  Claim C5. If the storage operation of \<^verbatim>\<open>incrementAttempt\<close> fails (the stored procedure
  answers with an error, or the call throws), \<^verbatim>\<open>incrementAttempt\<close> returns 0 to its caller
  and logs the failure: one console line is added, under the label of the branch taken.
  The result of \<^verbatim>\<open>incrementAttempt\<close> is a number on every path: nothing is thrown.
\<close>

theorem incrementAttempt_fail_open:
  assumes "reply_failed (fst (rpc_increment e ipAddress identifier now (failed_attempts w)))"
  shows "fst (incrementAttempt e now ipAddress identifier w) = 0
         \<and> effects (snd (incrementAttempt e now ipAddress identifier w))
             = effects w @
               [ConsoleError
                  (case fst (rpc_increment e ipAddress identifier now (failed_attempts w)) of
                     Threw ex \<Rightarrow> ''Error in incrementAttempt:''
                   | Reply data error \<Rightarrow> ''Failed to increment attempts:'')]"
  using assms
  by (cases "rpc_increment e ipAddress identifier now (failed_attempts w)";
      cases "fst (rpc_increment e ipAddress identifier now (failed_attempts w))")
     (auto simp add: incrementAttempt_def console_error_def)

theorem incrementAttempt_fail_open_witness:
  "reply_failed (fst (rpc_increment (scenario (Reply None (Some ''down'')) 1000)
                        ''1.2.3.4'' ''a@b.com'' 1000 (failed_attempts (one_row 2 0 0))))
   \<and> fst (incrementAttempt (scenario (Reply None (Some ''down'')) 1000) 1000
             ''1.2.3.4'' ''a@b.com'' (one_row 2 0 0)) = 0
   \<and> effects (snd (incrementAttempt (scenario (Reply None (Some ''down'')) 1000) 1000
             ''1.2.3.4'' ''a@b.com'' (one_row 2 0 0)))
       = [ConsoleError ''Failed to increment attempts:'']"
proof -
  have down: "reply_failed (fst (rpc_increment (scenario (Reply None (Some ''down'')) 1000)
                ''1.2.3.4'' ''a@b.com'' 1000 (failed_attempts (one_row 2 0 0))))"
    by (simp add: scenario_def)
  have rpc: "fst (rpc_increment (scenario (Reply None (Some ''down'')) 1000)
                ''1.2.3.4'' ''a@b.com'' 1000 (failed_attempts (one_row 2 0 0)))
               = Reply None (Some ''down'')"
    by (simp add: scenario_def)
  have start: "effects (one_row 2 0 0) = []"
    by (simp add: one_row_def)
  show ?thesis
    using down incrementAttempt_fail_open [OF down]
    by (simp add: rpc start)
qed

text \<open>
  Claim C6. If the storage read under \<^verbatim>\<open>checkRateLimit\<close> fails (the select answers with an
  error, or throws), \<^verbatim>\<open>checkRateLimit\<close> does not throw: the attempt count is taken as 0
  and the check succeeds, with no warning and no block.
\<close>

theorem checkRateLimit_fail_open:
  assumes "reply_failed (select_attempts e ipAddress identifier (failed_attempts w))"
  shows "fst (getCurrentAttempts e now ipAddress identifier w) = 0
         \<and> fst (checkRateLimit e now ipAddress identifier w) = Inr ()"
  using getCurrentAttempts_failed [OF assms, of now]
  by (simp add: checkRateLimit_result MAX_ATTEMPTS_def)

theorem checkRateLimit_fail_open_witness:
  "reply_failed (select_attempts (outage (Reply None None) 1000) ''1.2.3.4'' ''a@b.com''
                   (failed_attempts (one_row 5 0 0)))
   \<and> fst (checkRateLimit (outage (Reply None None) 1000) 1000 ''1.2.3.4'' ''a@b.com''
            (one_row 5 0 0)) = Inr ()"
proof -
  have down: "reply_failed (select_attempts (outage (Reply None None) 1000) ''1.2.3.4''
                ''a@b.com'' (failed_attempts (one_row 5 0 0)))"
    by (simp add: outage_def)
  show ?thesis
    using down checkRateLimit_fail_open [OF down, of 1000]
    by simp
qed

text \<open>
  Claim C7. \<^verbatim>\<open>checkRateLimit\<close> is read-only: one call, and any sequence of calls with no
  \<^verbatim>\<open>incrementAttempt\<close> between them, leaves the table of attempt records, and so every
  record's \<open>attemptCount\<close>, \<open>lastReset\<close> and \<open>lastAttempt\<close>, unchanged.
\<close>

theorem checkRateLimit_read_only:
  "failed_attempts (snd (checkRateLimit e now ipAddress identifier w)) = failed_attempts w
   \<and> failed_attempts (checkRateLimit_calls calls w) = failed_attempts w"
proof
  show one: "failed_attempts (snd (checkRateLimit e now ipAddress ident w)) = failed_attempts w"
    for e now ipAddress ident w
    by (simp add: checkRateLimit_world getCurrentAttempts_store)
  show "failed_attempts (checkRateLimit_calls calls w) = failed_attempts w"
  proof (induction calls arbitrary: w)
    case Nil
    show ?case by simp
  next
    case (Cons c calls)
    obtain e' t ipAddress' ident where c: "c = (e', t, ipAddress', ident)"
      by (cases c) auto
    show ?case
      by (simp add: c Cons.IH one)
  qed
qed

text \<open>
  Claim C8. When the effective attempt count inside the current window is exactly
  \<open>MAX_ATTEMPTS - 1\<close> (4), \<^verbatim>\<open>checkRateLimit\<close> produces the warning with 1 remaining attempt,
  not the hard block.
\<close>

theorem checkRateLimit_one_remaining:
  assumes "fst (getCurrentAttempts e now ipAddress identifier w) = MAX_ATTEMPTS - 1"
  shows "fst (checkRateLimit e now ipAddress identifier w)
           = Inl (AuthError ''1 login attempts remaining before temporary lockout.''
                    (Code ''auth/attempts-remaining'') None)
         \<and> fst (checkRateLimit e now ipAddress identifier w) = Inl (attemptsRemaining 1)
         \<and> fst (checkRateLimit e now ipAddress identifier w) \<noteq> Inl tooManyRequests"
  using assms
  by (simp add: checkRateLimit_result MAX_ATTEMPTS_def attemptsRemaining_def show_int_1
        tooManyRequests_def)

theorem checkRateLimit_one_remaining_witness:
  "fst (getCurrentAttempts (scenario (Reply None None) 0) 1000 ''1.2.3.4'' ''a@b.com''
          (one_row 4 0 0)) = MAX_ATTEMPTS - 1
   \<and> fst (checkRateLimit (scenario (Reply None None) 0) 1000 ''1.2.3.4'' ''a@b.com''
            (one_row 4 0 0))
       = Inl (AuthError ''1 login attempts remaining before temporary lockout.''
                (Code ''auth/attempts-remaining'') None)"
proof -
  have four: "fst (getCurrentAttempts (scenario (Reply None None) 0) 1000 ''1.2.3.4''
                ''a@b.com'' (one_row 4 0 0)) = MAX_ATTEMPTS - 1"
    by (simp add: scenario_count MAX_ATTEMPTS_def)
  show ?thesis
    using four checkRateLimit_one_remaining [OF four]
    by simp
qed

section \<open>After a failed credential check\<close>

text \<open>
  When \<^verbatim>\<open>incrementAttempt\<close> returned 0, \<^verbatim>\<open>handleFailedLogin\<close> throws nothing of its own: an
  exception of the audit service that is not an \<^verbatim>\<open>AuthError\<close> is swallowed.
\<close>

lemma handleFailedLogin_zero:
  assumes "\<And>ev ex. audit_failure e ev = Some ex \<Longrightarrow> \<not> isAuthError ex"
    and "fst (incrementAttempt e now ipAddress (toLowerCase email') w) = 0"
  shows "fst (handleFailedLogin e now ipAddress email' reason w) = Inr ()"
  using assms
  by (cases "incrementAttempt e now ipAddress (toLowerCase email') w")
     (auto simp add: handleFailedLogin_def logAuthEvent_def catchFailedLogin_def Let_def
           split: option.splits)

lemma loginFailed_zero:
  assumes "\<And>ev ex. audit_failure e ev = Some ex \<Longrightarrow> \<not> isAuthError ex"
    and "fst (incrementAttempt e (date_failure e) ipAddress (toLowerCase email') w) = 0"
  shows "fst (loginFailed e ipAddress email' reason w) = Inl invalidCredentials"
  using handleFailedLogin_zero [OF assms, where reason = reason]
  by (cases "handleFailedLogin e (date_failure e) ipAddress email' reason w")
     (simp add: loginFailed_def)

lemma loginBody_rejected:
  assumes "fst (checkRateLimit e (date_precheck e) (getClientIp e) (toLowerCase (email inp)) w)
             = Inr ()"
    and "credentials_rejected e inp"
  shows "\<exists>reason. loginBody e inp w =
           loginFailed e (getClientIp e) (email inp) reason
             (snd (checkRateLimit e (date_precheck e) (getClientIp e) (toLowerCase (email inp)) w))"
  using assms
  by (cases "checkRateLimit e (date_precheck e) (getClientIp e) (toLowerCase (email inp)) w")
     (auto simp add: loginBody_def credentials_rejected_def Let_def
           split: reply.splits option.splits)

lemma login_of_body:
  "fst (loginBody e inp w) = Inl ex \<Longrightarrow> isAuthError ex \<Longrightarrow> fst (login e inp w) = Inl ex"
  by (cases "loginBody e inp w") (simp add: login_def)

text \<open>
  Claim C9. After \<^verbatim>\<open>incrementAttempt\<close> returned \<open>attempts\<close> (and the audit service took the
  event without throwing), \<^verbatim>\<open>handleFailedLogin\<close> computes the remaining attempts as
  \<open>MAX_ATTEMPTS - attempts\<close> and produces exactly one of three outcomes: at most 0
  remaining gives the lockout error, whose message states the window of 15 minutes; 1 or
  2 remaining give the warning, whose message contains the exact remaining count; more
  than 2 remaining give no error.
\<close>

theorem handleFailedLogin_three_outcomes:
  assumes "fst (incrementAttempt e now ipAddress (toLowerCase email') w) = attempts"
    and "audit_failure e (LOGIN_FAILED email' reason ipAddress attempts) = None"
  shows "fst (handleFailedLogin e now ipAddress email' reason w) =
           (if MAX_ATTEMPTS - attempts \<le> 0
            then Inl (AuthError
                        ''Too many failed login attempts. Please try again after 15 minutes.''
                        INVALID_CREDENTIALS None)
            else if MAX_ATTEMPTS - attempts \<le> 2
            then Inl (AuthError
                        (''Invalid credentials. '' @ show_int (MAX_ATTEMPTS - attempts)
                           @ '' attempts remaining before temporary lockout.'')
                        INVALID_CREDENTIALS None)
            else Inr ())"
  using assms
  by (cases "incrementAttempt e now ipAddress (toLowerCase email') w")
     (simp add: handleFailedLogin_def logAuthEvent_def catchFailedLogin_def Let_def
           lockoutError_def remainingWarning_def MAX_ATTEMPTS_def)

theorem handleFailedLogin_three_outcomes_witness:
  "fst (handleFailedLogin (scenario (Reply (Some 5) None) 1000) 1000 ''1.2.3.4'' ''A@b.com''
          ''Invalid password'' (one_row 4 0 0))
     = Inl (AuthError ''Too many failed login attempts. Please try again after 15 minutes.''
              INVALID_CREDENTIALS None)
   \<and> fst (handleFailedLogin (scenario (Reply (Some 4) None) 1000) 1000 ''1.2.3.4'' ''A@b.com''
          ''Invalid password'' (one_row 3 0 0))
     = Inl (AuthError ''Invalid credentials. 1 attempts remaining before temporary lockout.''
              INVALID_CREDENTIALS None)
   \<and> fst (handleFailedLogin (scenario (Reply (Some 1) None) 1000) 1000 ''1.2.3.4'' ''A@b.com''
          ''Invalid password'' (one_row 0 0 0))
     = Inr ()"
proof -
  have inc: "fst (incrementAttempt (scenario (Reply (Some n) None) 1000) 1000 ''1.2.3.4''
               (toLowerCase ''A@b.com'') w) = n" for n w
    by (simp add: incrementAttempt_def scenario_def)
  have audit: "audit_failure (scenario (Reply (Some n) None) 1000) ev = None" for n ev
    by (simp add: scenario_def)
  show ?thesis
    using handleFailedLogin_three_outcomes
            [OF inc [of 5 "one_row 4 0 0"] audit, where reason = "''Invalid password''"]
          handleFailedLogin_three_outcomes
            [OF inc [of 4 "one_row 3 0 0"] audit, where reason = "''Invalid password''"]
          handleFailedLogin_three_outcomes
            [OF inc [of 1 "one_row 0 0 0"] audit, where reason = "''Invalid password''"]
    by (simp add: MAX_ATTEMPTS_def show_int_1)
qed

text \<open>
  Claim C10. Whenever \<^verbatim>\<open>incrementAttempt\<close> returns 0, its value on a storage failure,
  \<^verbatim>\<open>handleFailedLogin\<close> has 5 attempts remaining and raises neither the lockout error nor
  the warning; so while the counter store is down (the select and the stored procedure
  both fail), a login whose credential check fails surfaces the generic
  invalid-credentials error, never a lockout message. The audit service is assumed not
  to throw an \<^verbatim>\<open>AuthError\<close> of its own.
\<close>

theorem outage_generic_error:
  assumes "\<And>ev ex. audit_failure e ev = Some ex \<Longrightarrow> \<not> isAuthError ex"
  shows "(fst (incrementAttempt e now ipAddress (toLowerCase email') w) = 0
            \<longrightarrow> fst (handleFailedLogin e now ipAddress email' reason w) = Inr ())
         \<and> (reply_failed (select_attempts e (getClientIp e) (toLowerCase (email inp))
                            (failed_attempts w))
              \<and> reply_failed (fst (rpc_increment e (getClientIp e) (toLowerCase (email inp))
                                      (date_failure e) (failed_attempts w)))
              \<and> credentials_rejected e inp
            \<longrightarrow> fst (login e inp w)
                  = Inl (AuthError ''Invalid email or password'' INVALID_CREDENTIALS None))"
proof (intro conjI impI)
  assume "fst (incrementAttempt e now ipAddress (toLowerCase email') w) = 0"
  with assms show "fst (handleFailedLogin e now ipAddress email' reason w) = Inr ()"
    by (rule handleFailedLogin_zero)
next
  let ?ip = "getClientIp e" and ?id = "toLowerCase (email inp)"
  let ?w1 = "snd (checkRateLimit e (date_precheck e) ?ip ?id w)"
  assume down: "reply_failed (select_attempts e ?ip ?id (failed_attempts w))
      \<and> reply_failed (fst (rpc_increment e ?ip ?id (date_failure e) (failed_attempts w)))
      \<and> credentials_rejected e inp"
  from down have "fst (getCurrentAttempts e (date_precheck e) ?ip ?id w) = 0"
    by (simp add: getCurrentAttempts_failed)
  then have pre: "fst (checkRateLimit e (date_precheck e) ?ip ?id w) = Inr ()"
    by (simp add: checkRateLimit_result MAX_ATTEMPTS_def)
  have store: "failed_attempts ?w1 = failed_attempts w"
    by (simp add: checkRateLimit_world getCurrentAttempts_store)
  from down store have "fst (incrementAttempt e (date_failure e) ?ip ?id ?w1) = 0"
    by (simp add: incrementAttempt_failed)
  with assms have "fst (loginFailed e ?ip (email inp) r ?w1) = Inl invalidCredentials" for r
    by (rule loginFailed_zero)
  moreover from pre down obtain r where "loginBody e inp w = loginFailed e ?ip (email inp) r ?w1"
    using loginBody_rejected by blast
  ultimately have "fst (loginBody e inp w) = Inl invalidCredentials"
    by simp
  then have "fst (login e inp w) = Inl invalidCredentials"
    by (rule login_of_body) (simp add: invalidCredentials_def)
  then show "fst (login e inp w)
               = Inl (AuthError ''Invalid email or password'' INVALID_CREDENTIALS None)"
    by (simp add: invalidCredentials_def)
qed

theorem outage_generic_error_witness:
  "fst (handleFailedLogin (outage (Reply None (Some ''down'')) 1000) 1000 ''1.2.3.4'' ''A@b.com''
          ''Invalid password'' (one_row 5 0 0)) = Inr ()
   \<and> fst (login (outage (Reply None (Some ''down'')) 1000)
            \<lparr>email = ''A@b.com'', password = ''wrong'', deviceInfo = ''web''\<rparr> (one_row 5 0 0))
       = Inl (AuthError ''Invalid email or password'' INVALID_CREDENTIALS None)"
proof -
  let ?e = "outage (Reply None (Some ''down'')) 1000"
  let ?inp = "\<lparr>email = ''A@b.com'', password = ''wrong'', deviceInfo = ''web''\<rparr>"
  have audit: "audit_failure ?e ev = Some ex \<Longrightarrow> \<not> isAuthError ex" for ev ex
    by (simp add: outage_def scenario_def)
  have zero: "fst (incrementAttempt ?e 1000 ''1.2.3.4'' (toLowerCase ''A@b.com'') (one_row 5 0 0)) = 0"
    by (simp add: incrementAttempt_def outage_def scenario_def)
  have sel: "reply_failed (select_attempts ?e (getClientIp ?e) (toLowerCase (email ?inp))
               (failed_attempts (one_row 5 0 0)))"
    by (simp add: outage_def)
  have rpc: "reply_failed (fst (rpc_increment ?e (getClientIp ?e) (toLowerCase (email ?inp))
               (date_failure ?e) (failed_attempts (one_row 5 0 0))))"
    by (simp add: outage_def scenario_def)
  have rej: "credentials_rejected ?e ?inp"
    by (simp add: credentials_rejected_def outage_def scenario_def alice_def lower_email)
  show ?thesis
    using outage_generic_error
            [OF audit, where e = ?e and now = 1000 and ipAddress = "''1.2.3.4''"
               and email' = "''A@b.com''" and w = "one_row 5 0 0"
               and reason = "''Invalid password''" and inp = ?inp]
          zero sel rpc rej
    by simp
qed

end
